theory Spec2Isabelle
  imports Main "HOL-Library.Word"
begin

unbundle bit_operations_syntax

section \<open>Values and collaborators of package request\<close>

text \<open>
  Go errors are created with \<^verbatim>\<open>errors.New(msg)\<close> and only ever read back with
  \<^verbatim>\<open>err.Error()\<close>, so an error is its message; \<^verbatim>\<open>nil\<close> is \<open>None\<close>.
\<close>

type_synonym error = string

text \<open>
  The dynamically typed values of a \<^verbatim>\<open>map[string]interface{}\<close>. The code only ever
  asks whether a value is a string (\<^verbatim>\<open>raw.(string)\<close>).
\<close>

datatype iface = VString string | VInt int | VBool bool | VNil | VSlice "iface list"

type_synonym data = "string \<rightharpoonup> iface"

text \<open>Of a backend secret (\<^verbatim>\<open>*api.Secret\<close>) only the field \<^verbatim>\<open>Data\<close> is read.\<close>

datatype secret = Secret (Data: data)

text \<open>The root generation status: the code reads \<^verbatim>\<open>EncodedRootToken\<close> and \<^verbatim>\<open>Nonce\<close>.\<close>

datatype status = Status (EncodedRootToken: string) (Nonce: string)

text \<open>
  Everything that \<^verbatim>\<open>request.go\<close> imports and that is not part of the file: the secret
  store adapter (package \<^verbatim>\<open>vault\<close>), the methods of the concrete request type
  \<^verbatim>\<open>PolicyRequest\<close>, and the library functions whose results depend on reflection, on
  Unicode tables or on randomness. They are parameters: \<open>'w\<close> is the state of the world
  outside the package (the backend first of all), \<open>'a\<close> is \<^verbatim>\<open>vault.AuthInfo\<close> and \<open>'r\<close>
  is \<^verbatim>\<open>PolicyRequest\<close>. Every theorem below holds for every choice of them.
\<close>

record ('a, 'r, 'w) env =
  vault_ReadFromCubbyhole :: "string \<Rightarrow> 'w \<Rightarrow> (error + secret option) \<times> 'w"
  vault_WriteToCubbyhole :: "string \<Rightarrow> data \<Rightarrow> 'w \<Rightarrow> error option \<times> 'w"
  vault_GenerateRootInit :: "string \<Rightarrow> 'w \<Rightarrow> (error + status) \<times> 'w"
  vault_GenerateRootUpdate :: "string \<Rightarrow> string \<Rightarrow> 'w \<Rightarrow> (error + status) \<times> 'w"
  vault_GenerateRootCancel :: "'w \<Rightarrow> error option \<times> 'w"
  vault_WrapData :: "string \<Rightarrow> data \<Rightarrow> 'w \<Rightarrow> (error + string) \<times> 'w"
  req_build :: "'a \<Rightarrow> data \<Rightarrow> 'w \<Rightarrow> (error + 'r) \<times> 'w"
  req_Verify :: "'r \<Rightarrow> 'a \<Rightarrow> 'w \<Rightarrow> error option \<times> 'w"
  req_Approve :: "'r \<Rightarrow> string \<Rightarrow> string \<Rightarrow> 'w \<Rightarrow> error option \<times> 'w"
  req_Reject :: "'r \<Rightarrow> 'a \<Rightarrow> string \<Rightarrow> 'w \<Rightarrow> error option \<times> 'w"
  structs_Map :: "'r \<Rightarrow> data"
  mapstructure_Decode :: "data \<Rightarrow> error + 'r"
  hashstructure_Hash :: "'r \<Rightarrow> error + 64 word"
  strings_ToLower :: "string \<Rightarrow> string"
  securecookie_GenerateRandomKey :: "nat \<Rightarrow> 'w \<Rightarrow> 8 word list \<times> 'w"
  base64_EncodeToString :: "8 word list \<Rightarrow> string"
  base64_DecodeString :: "string \<Rightarrow> 8 word list option"

text \<open>
  The state of the package itself is the busy-set \<^verbatim>\<open>lockMap\<close>: a \<^verbatim>\<open>syncmap.Map\<close> whose
  values are all \<^verbatim>\<open>true\<close>, hence the set of its keys.
\<close>

record 'w state =
  lockMap :: "string set"
  world :: "'w"

definition LoadOrStore :: "string \<Rightarrow> string set \<Rightarrow> bool \<times> string set" where
  "LoadOrStore key m = (key \<in> m, insert key m)"

definition Delete :: "string \<Rightarrow> string set \<Rightarrow> string set" where
  "Delete key m = m - {key}"

section \<open>Formatting a fingerprint\<close>

text \<open>The digit for a value below 16; it is applied to no other.\<close>

definition hex_digit :: "nat \<Rightarrow> char" where
  "hex_digit d = ''0123456789abcdef'' ! d"

text \<open>\<^verbatim>\<open>strconv.FormatUint(h, 16)\<close>: lower-case digits, no leading zero, \<^verbatim>\<open>"0"\<close> for 0.\<close>

fun hex_nat :: "nat \<Rightarrow> string" where
  "hex_nat n = (if n < 16 then [hex_digit n] else hex_nat (n div 16) @ [hex_digit (n mod 16)])"

definition FormatUint16 :: "64 word \<Rightarrow> string" where
  "FormatUint16 h = hex_nat (unat h)"

text \<open>
  Lines 106--107 of \<^verbatim>\<open>request.go\<close>: the fingerprint of a decoded request, or the error
  of the hasher.
\<close>

definition fingerprint :: "('a, 'r, 'w) env \<Rightarrow> 'r \<Rightarrow> error + string" where
  "fingerprint E req =
     (case hashstructure_Hash E req of
        Inl err \<Rightarrow> Inl err
      | Inr hash_uint64 \<Rightarrow> Inr (FormatUint16 hash_uint64))"

section \<open>The dispatcher\<close>

text \<open>
  \<^verbatim>\<open>t := ""; if v, ok := m[key]; ok { t, ok = v.(string) }\<close>: a failed type assertion
  leaves the zero value.
\<close>

definition string_field :: "data \<Rightarrow> string \<Rightarrow> string" where
  "string_field m key = (case m key of Some (VString t) \<Rightarrow> t | _ \<Rightarrow> '''')"

text \<open>
  Modelled from the spec: \<^verbatim>\<open>PolicyRequest.Create\<close> is not in \<^verbatim>\<open>request.go\<close>. The spec has it
  build the concrete request from the raw fields (with the variant's own validation,
  here the parameter \<open>req_build\<close>) and compute the fingerprint, ``identically at
  creation and at every subsequent read''.
\<close>

definition Create ::
  "('a, 'r, 'w) env \<Rightarrow> 'a \<Rightarrow> data \<Rightarrow> 'w \<Rightarrow> (error + string \<times> 'r) \<times> 'w" where
  "Create E auth raw w =
     (case req_build E auth raw w of
        (Inl err, w1) \<Rightarrow> (Inl err, w1)
      | (Inr req, w1) \<Rightarrow>
          (case fingerprint E req of
             Inl err \<Rightarrow> (Inl err, w1)
           | Inr hash \<Rightarrow> (Inr (hash, req), w1)))"

text \<open>\<^verbatim>\<open>Add\<close> returns \<^verbatim>\<open>(string, error)\<close>, and on its last line both at once.\<close>

definition Add ::
  "('a, 'r, 'w) env \<Rightarrow> 'a \<Rightarrow> data \<Rightarrow> 'w state \<Rightarrow> (string \<times> error option) \<times> 'w state" where
  "Add E auth raw s =
     (let t = string_field raw ''Type'' in
      if t = '''' then (('''', Some ''Type field is empty''), s)
      else if strings_ToLower E t = ''policy'' then
        (case Create E auth raw (world s) of
           (Inl err, w1) \<Rightarrow> (('''', Some err), s\<lparr>world := w1\<rparr>)
         | (Inr (hash, req), w1) \<Rightarrow>
             (case LoadOrStore hash (lockMap s) of
                (True, m) \<Rightarrow>
                  (('''', Some ''Someone else is currently editing this request''),
                   \<lparr>lockMap = m, world = w1\<rparr>)
              | (False, m) \<Rightarrow>
                  (case vault_WriteToCubbyhole E (''requests/'' @ hash) (structs_Map E req) w1 of
                     (err, w2) \<Rightarrow> ((hash, err), \<lparr>lockMap = Delete hash m, world = w2\<rparr>))))
      else (('''', Some ''Unsupported request type''), s))"

text \<open>
  Lines 81--109, repeated verbatim as lines 131--159 and 180--209: fetch the record,
  read its type, decode it and compare its fingerprint with the key.
\<close>

definition load_request ::
  "('a, 'r, 'w) env \<Rightarrow> string \<Rightarrow> 'w \<Rightarrow> (error + 'r) \<times> 'w" where
  "load_request E hash w =
     (case vault_ReadFromCubbyhole E (''requests/'' @ hash) w of
        (Inl err, w1) \<Rightarrow> (Inl err, w1)
      | (Inr None, w1) \<Rightarrow> (Inl ''Change ID not found'', w1)
      | (Inr (Some resp), w1) \<Rightarrow>
          (let t = string_field (Data resp) ''Type'' in
           if t = '''' then (Inl ''Invalid request type'', w1)
           else if strings_ToLower E t = ''policy'' then
             (case mapstructure_Decode E (Data resp) of
                Inl err \<Rightarrow> (Inl err, w1)
              | Inr req \<Rightarrow>
                  (if fingerprint E req = Inr hash then (Inr req, w1)
                   else (Inl ''Hashes do not match'', w1)))
           else (Inl (''Invalid request type: '' @ t), w1)))"

definition Get ::
  "('a, 'r, 'w) env \<Rightarrow> 'a \<Rightarrow> string \<Rightarrow> 'w state \<Rightarrow> (error + 'r) \<times> 'w state" where
  "Get E auth hash s =
     (case LoadOrStore hash (lockMap s) of
        (True, m) \<Rightarrow>
          (Inl ''Someone else is currently editing this request'', \<lparr>lockMap = m, world = world s\<rparr>)
      | (False, m) \<Rightarrow>
          (case load_request E hash (world s) of
             (Inl err, w1) \<Rightarrow> (Inl err, \<lparr>lockMap = Delete hash m, world = w1\<rparr>)
           | (Inr req, w1) \<Rightarrow>
               (case req_Verify E req auth w1 of
                  (Some err, w2) \<Rightarrow> (Inl err, \<lparr>lockMap = Delete hash m, world = w2\<rparr>)
                | (None, w2) \<Rightarrow> (Inr req, \<lparr>lockMap = Delete hash m, world = w2\<rparr>))))"

definition Approve ::
  "('a, 'r, 'w) env \<Rightarrow> 'a \<Rightarrow> string \<Rightarrow> string \<Rightarrow> 'w state \<Rightarrow> error option \<times> 'w state" where
  "Approve E auth hash unseal s =
     (case LoadOrStore hash (lockMap s) of
        (True, m) \<Rightarrow>
          (Some ''Someone else is currently editing this request'', \<lparr>lockMap = m, world = world s\<rparr>)
      | (False, m) \<Rightarrow>
          (case load_request E hash (world s) of
             (Inl err, w1) \<Rightarrow> (Some err, \<lparr>lockMap = Delete hash m, world = w1\<rparr>)
           | (Inr req, w1) \<Rightarrow>
               (case req_Verify E req auth w1 of
                  (Some err, w2) \<Rightarrow> (Some err, \<lparr>lockMap = Delete hash m, world = w2\<rparr>)
                | (None, w2) \<Rightarrow>
                    (case req_Approve E req hash unseal w2 of
                       (err, w3) \<Rightarrow> (err, \<lparr>lockMap = Delete hash m, world = w3\<rparr>)))))"

definition Reject ::
  "('a, 'r, 'w) env \<Rightarrow> 'a \<Rightarrow> string \<Rightarrow> 'w state \<Rightarrow> error option \<times> 'w state" where
  "Reject E auth hash s =
     (case LoadOrStore hash (lockMap s) of
        (True, m) \<Rightarrow>
          (Some ''Someone else is currently editing this request'', \<lparr>lockMap = m, world = world s\<rparr>)
      | (False, m) \<Rightarrow>
          (case load_request E hash (world s) of
             (Inl err, w1) \<Rightarrow> (Some err, \<lparr>lockMap = Delete hash m, world = w1\<rparr>)
           | (Inr req, w1) \<Rightarrow>
               (case req_Reject E req auth hash w1 of
                  (err, w2) \<Rightarrow> (err, \<lparr>lockMap = Delete hash m, world = w2\<rparr>))))"

section \<open>Root token reconstruction\<close>

text \<open>
  The loop of lines 235--246. A failing update ends the loop and the function: the
  message is built from the error, the backend is asked to cancel, and the error of a
  failed cancel is appended. A successful update only replaces \<^verbatim>\<open>status\<close>; the loop has
  no other exit.
\<close>

fun update_shares ::
  "('a, 'r, 'w) env \<Rightarrow> string list \<Rightarrow> status \<Rightarrow> 'w \<Rightarrow> (error + status) \<times> 'w" where
  "update_shares E [] status w = (Inr status, w)"
| "update_shares E (s # unsealKeys) status w =
     (case vault_GenerateRootUpdate E s (Nonce status) w of
        (Inl err, w1) \<Rightarrow>
          (let errS = ''Could not generate root token: '' @ err in
           case vault_GenerateRootCancel E w1 of
             (Some err2, w2) \<Rightarrow>
               (Inl (errS @ ''. Attempted to cancel root generation, but: '' @ err2), w2)
           | (None, w2) \<Rightarrow> (Inl errS, w2))
      | (Inr status', w1) \<Rightarrow> update_shares E unsealKeys status' w1)"

text \<open>
  \<^verbatim>\<open>xor.XORBuffers\<close> and \<^verbatim>\<open>xor.XORBase64\<close> of the imported helper package: both operands are
  decoded, neither may be empty, their lengths must agree, and the result is the
  byte-wise exclusive or. \<^verbatim>\<open>generateRootToken\<close> drops the text of their errors, so a
  failure is \<open>None\<close>.
\<close>

definition XORBuffers :: "8 word list \<Rightarrow> 8 word list \<Rightarrow> 8 word list option" where
  "XORBuffers a b =
     (if length a \<noteq> length b then None else Some (map (\<lambda>(x, y). x XOR y) (zip a b)))"

definition XORBase64 :: "('a, 'r, 'w) env \<Rightarrow> string \<Rightarrow> string \<Rightarrow> 8 word list option" where
  "XORBase64 E a b =
     (case base64_DecodeString E a of
        None \<Rightarrow> None
      | Some aBytes \<Rightarrow>
          (if aBytes = [] then None
           else (case base64_DecodeString E b of
                   None \<Rightarrow> None
                 | Some bBytes \<Rightarrow> (if bBytes = [] then None else XORBuffers aBytes bBytes))))"

text \<open>
  \<^verbatim>\<open>uuid.FormatUUID\<close>: exactly 16 bytes, printed with \<^verbatim>\<open>%x\<close> (two lower-case digits a
  byte) in groups of 4, 2, 2, 2 and 6 bytes joined by dashes.
\<close>

definition hex_byte :: "8 word \<Rightarrow> string" where
  "hex_byte b = [hex_digit (unat b div 16), hex_digit (unat b mod 16)]"

definition hex_bytes :: "8 word list \<Rightarrow> string" where
  "hex_bytes buf = concat (map hex_byte buf)"

definition FormatUUID :: "8 word list \<Rightarrow> string option" where
  "FormatUUID buf =
     (if length buf \<noteq> 16 then None
      else Some (hex_bytes (take 4 buf) @ ''-'' @ hex_bytes (take 2 (drop 4 buf)) @ ''-'' @
                 hex_bytes (take 2 (drop 6 buf)) @ ''-'' @ hex_bytes (take 2 (drop 8 buf)) @ ''-'' @
                 hex_bytes (take 6 (drop 10 buf))))"

text \<open>
  \<^verbatim>\<open>generateRootToken\<close> returns \<^verbatim>\<open>(string, error)\<close>. The mutex \<^verbatim>\<open>lockRoot\<close> is taken on entry
  and released on every return; the model is of one call at a time, where it has no
  effect.
\<close>

definition generateRootToken ::
  "('a, 'r, 'w) env \<Rightarrow> string list \<Rightarrow> 'w \<Rightarrow> (string \<times> error option) \<times> 'w" where
  "generateRootToken E unsealKeys w =
     (case securecookie_GenerateRandomKey E 16 w of
        (key, w0) \<Rightarrow>
          (let otp = base64_EncodeToString E key in
           case vault_GenerateRootInit E otp w0 of
             (Inl err, w1) \<Rightarrow> (('''', Some err), w1)
           | (Inr status, w1) \<Rightarrow>
               (case (if EncodedRootToken status = '''' then update_shares E unsealKeys status w1
                      else (Inr status, w1)) of
                  (Inl errS, w2) \<Rightarrow> (('''', Some errS), w2)
                | (Inr status', w2) \<Rightarrow>
                    (if EncodedRootToken status' = '''' then
                       (('''', Some ''Could not generate root token. Was vault re-keyed just now?''), w2)
                     else
                       (case XORBase64 E (EncodedRootToken status') otp of
                          None \<Rightarrow>
                            (('''', Some ''Could not decode root token. Please search and revoke''), w2)
                        | Some tokenBytes \<Rightarrow>
                            (case FormatUUID tokenBytes of
                               None \<Rightarrow>
                                 (('''', Some ''Could not decode root token. Please search and revoke''), w2)
                             | Some token \<Rightarrow> ((token, None), w2)))))))"

section \<open>The share bundle\<close>

text \<open>
  Go strings are byte strings, and so is \<^typ>\<open>string\<close>. \<^verbatim>\<open>strings.Fields\<close> splits around
  runs of white space as \<^verbatim>\<open>unicode.IsSpace\<close> defines it: six ASCII characters, and the
  runes U+0085, U+00A0, U+1680, U+2000 to U+200A, U+2028, U+2029, U+202F, U+205F and
  U+3000 in their UTF-8 encodings. \<open>space_width s\<close> is the number of bytes of the white
  space rune that \<open>s\<close> starts with, or 0. The lead byte of such an encoding is never a
  continuation byte of another rune, so looking for it at every byte finds the same
  runes as decoding does.
\<close>

definition ascii_space :: "char \<Rightarrow> bool" where
  "ascii_space c =
     (c = CHR 0x09 \<or> c = CHR 0x0A \<or> c = CHR 0x0B \<or> c = CHR 0x0C \<or> c = CHR 0x0D \<or> c = CHR 0x20)"

definition space2 :: "char \<Rightarrow> char \<Rightarrow> bool" where
  "space2 c1 c2 = (c1 = CHR 0xC2 \<and> (c2 = CHR 0x85 \<or> c2 = CHR 0xA0))"

definition space3 :: "char \<Rightarrow> char \<Rightarrow> char \<Rightarrow> bool" where
  "space3 c1 c2 c3 =
     ((c1 = CHR 0xE1 \<and> c2 = CHR 0x9A \<and> c3 = CHR 0x80) \<or>
      (c1 = CHR 0xE2 \<and> c2 = CHR 0x80 \<and>
         (c3 \<in> set [CHR 0x80, CHR 0x81, CHR 0x82, CHR 0x83, CHR 0x84, CHR 0x85, CHR 0x86,
                     CHR 0x87, CHR 0x88, CHR 0x89, CHR 0x8A, CHR 0xA8, CHR 0xA9, CHR 0xAF])) \<or>
      (c1 = CHR 0xE2 \<and> c2 = CHR 0x81 \<and> c3 = CHR 0x9F) \<or>
      (c1 = CHR 0xE3 \<and> c2 = CHR 0x80 \<and> c3 = CHR 0x80))"

fun space_width :: "string \<Rightarrow> nat" where
  "space_width [] = 0"
| "space_width [c1] = (if ascii_space c1 then 1 else 0)"
| "space_width [c1, c2] = (if ascii_space c1 then 1 else if space2 c1 c2 then 2 else 0)"
| "space_width (c1 # c2 # c3 # cs) =
     (if ascii_space c1 then 1 else if space2 c1 c2 then 2 else if space3 c1 c2 c3 then 3 else 0)"

text \<open>
  \<open>fields_from cur s\<close>: the fields of \<open>s\<close> when \<open>cur\<close> is the field read so far. A white
  space rune closes the field, if there is one, and is skipped.
\<close>

function fields_from :: "string \<Rightarrow> string \<Rightarrow> string list" where
  "fields_from cur [] = (if cur = [] then [] else [cur])"
| "fields_from cur (c # cs) =
     (if space_width (c # cs) = 0 then fields_from (cur @ [c]) cs
      else (if cur = [] then [] else [cur]) @ fields_from [] (drop (space_width (c # cs) - 1) cs))"
  by pat_completeness auto
termination
  by (relation "measure (\<lambda>(cur, s). length s)") auto

definition Fields :: "string \<Rightarrow> string list" where
  "Fields s = fields_from [] s"

text \<open>\<^verbatim>\<open>strings.Join\<close>.\<close>

fun Join :: "string list \<Rightarrow> string \<Rightarrow> string" where
  "Join [] sep = []"
| "Join [x] sep = x"
| "Join (x # y # ys) sep = x @ sep @ Join (y # ys) sep"

text \<open>\<^verbatim>\<open>fmt.Sprint\<close> of a \<^verbatim>\<open>[]string\<close>: the elements separated by one space, in brackets.\<close>

definition Sprint :: "string list \<Rightarrow> string" where
  "Sprint elems = ''['' @ Join elems '' '' @ '']''"

text \<open>\<^verbatim>\<open>strings.Trim\<close> with an ASCII cutset removes leading and trailing bytes of the set.\<close>

definition Trim :: "string \<Rightarrow> string \<Rightarrow> string" where
  "Trim s cutset =
     rev (dropWhile (\<lambda>c. c \<in> set cutset) (rev (dropWhile (\<lambda>c. c \<in> set cutset) s)))"

text \<open>
  \<^verbatim>\<open>strings.Split\<close> with a separator of one byte: one more piece than there are
  separators, so never the empty list, and \<open>[[]]\<close> for the empty string.
\<close>

fun Split :: "string \<Rightarrow> char \<Rightarrow> string list" where
  "Split [] sep = [[]]"
| "Split (c # cs) sep =
     (if c = sep then [] # Split cs sep
      else (case Split cs sep of [] \<Rightarrow> [[c]] | piece # pieces \<Rightarrow> (c # piece) # pieces))"

text \<open>
  \<^verbatim>\<open>appendUnseal\<close> returns \<^verbatim>\<open>([]string, error)\<close>, and on its last line both at once. Lines
  277--286 read the bundle written before.
\<close>

definition read_bundle :: "secret option \<Rightarrow> error + string list" where
  "read_bundle resp =
     (case resp of
        None \<Rightarrow> Inr []
      | Some r \<Rightarrow>
          (let raw = string_field (Data r) ''wrapping_tokens'' in
           if raw = '''' then Inl ''Could not find key 'wrapping_tokens' in cubbyhole''
           else Inr (Split raw CHR '';'')))"

definition appendUnseal ::
  "('a, 'r, 'w) env \<Rightarrow> string \<Rightarrow> string \<Rightarrow> 'w \<Rightarrow> (string list \<times> error option) \<times> 'w" where
  "appendUnseal E hash unseal w =
     (case vault_ReadFromCubbyhole E (''unseal_wrapping_tokens/'' @ hash) w of
        (Inl err, w1) \<Rightarrow> (([], Some err), w1)
      | (Inr resp, w1) \<Rightarrow>
          (case read_bundle resp of
             Inl err \<Rightarrow> (([], Some err), w1)
           | Inr wrappingTokens \<Rightarrow>
               (case vault_WrapData E ''60m'' [''unseal_token'' \<mapsto> VString unseal] w1 of
                  (Inl err, w2) \<Rightarrow> (([], Some err), w2)
                | (Inr newWrappingToken, w2) \<Rightarrow>
                    (let wrappingTokens' = wrappingTokens @ [newWrappingToken] in
                     case vault_WriteToCubbyhole E (''unseal_wrapping_tokens/'' @ hash)
                            [''wrapping_tokens'' \<mapsto>
                               VString (Trim (Join (Fields (Sprint wrappingTokens')) '';'') ''[]'')] w2 of
                       (err, w3) \<Rightarrow> ((wrappingTokens', err), w3)))))"

section \<open>An in-memory backend\<close>

text \<open>
  Modelled from the spec: package \<^verbatim>\<open>vault\<close> and the type \<^verbatim>\<open>PolicyRequest\<close> are not in
  \<^verbatim>\<open>request.go\<close>. The instance below is the collaborator set of the spec in its
  simplest form, and is used only to run the operations on concrete inputs. Its state
  is a keyed store (\<open>cubbyhole\<close>), the policies of the backend and the callers allowed
  to see them, a supply of wrapping tokens (\<open>fresh\<close>), and a root generation that
  completes once \<open>threshold\<close> valid key shares were submitted.
\<close>

record backend =
  cubbyhole :: "string \<rightharpoonup> data"
  policies :: "string \<rightharpoonup> string"
  callers :: "string list"
  fresh :: "string list"
  key_shares :: "string list"
  threshold :: nat
  submitted :: "string list"
  generating :: bool
  pad :: string
  root :: "8 word list"
  entropy :: "8 word list"

text \<open>
  Modelled from the spec: the fields of \<^verbatim>\<open>PolicyRequest\<close> are not in \<^verbatim>\<open>request.go\<close>. The spec
  names the type, the target policy and the proposed document; \<open>Current\<close> is the
  document the proposal was made against.
\<close>

datatype policy_request =
  PolicyRequest (Type: string) (Name: string) (Current: string) (Document: string)

text \<open>
  An instance of the base64 codec: the alphabet, encoding and decoding of RFC 4648,
  with padding.
\<close>

definition b64_alphabet :: string where
  "b64_alphabet = ''ABCDEFGHIJKLMNOPQRSTUVWXYZabcdefghijklmnopqrstuvwxyz0123456789+/''"

fun b64_encode :: "8 word list \<Rightarrow> string" where
  "b64_encode (a # b # c # rest) =
     (let n = unat a * 65536 + unat b * 256 + unat c in
      [b64_alphabet ! (n div 262144), b64_alphabet ! (n div 4096 mod 64),
       b64_alphabet ! (n div 64 mod 64), b64_alphabet ! (n mod 64)] @ b64_encode rest)"
| "b64_encode [a, b] =
     (let n = unat a * 1024 + unat b * 4 in
      [b64_alphabet ! (n div 4096), b64_alphabet ! (n div 64 mod 64),
       b64_alphabet ! (n mod 64), CHR ''=''])"
| "b64_encode [a] =
     (let n = unat a * 16 in [b64_alphabet ! (n div 64), b64_alphabet ! (n mod 64), CHR ''='', CHR ''=''])"
| "b64_encode [] = []"

fun b64_index :: "string \<Rightarrow> char \<Rightarrow> nat option" where
  "b64_index [] c = None"
| "b64_index (x # xs) c = (if x = c then Some 0 else map_option Suc (b64_index xs c))"

definition b64_value :: "char \<Rightarrow> nat option" where
  "b64_value c = b64_index b64_alphabet c"

text \<open>
  A group of four characters is 24 bits, that is three bytes; a last group padded with
  one or two \<^verbatim>\<open>=\<close> is two bytes or one.
\<close>

definition b64_bytes :: "nat \<Rightarrow> 8 word list" where
  "b64_bytes n = [of_nat (n div 65536 mod 256), of_nat (n div 256 mod 256), of_nat (n mod 256)]"

fun b64_decode :: "string \<Rightarrow> 8 word list option" where
  "b64_decode [] = Some []"
| "b64_decode [a, b, c, d] =
     (case (b64_value a, b64_value b) of
        (Some x, Some y) \<Rightarrow>
          (if c = CHR ''='' \<and> d = CHR ''='' then Some (take 1 (b64_bytes (x * 262144 + y * 4096)))
           else (case b64_value c of
                   None \<Rightarrow> None
                 | Some z \<Rightarrow>
                     (if d = CHR ''='' then Some (take 2 (b64_bytes (x * 262144 + y * 4096 + z * 64)))
                      else (case b64_value d of
                              None \<Rightarrow> None
                            | Some v \<Rightarrow> Some (b64_bytes (x * 262144 + y * 4096 + z * 64 + v))))))
      | _ \<Rightarrow> None)"
| "b64_decode (a # b # c # d # rest) =
     (case (b64_value a, b64_value b, b64_value c, b64_value d) of
        (Some x, Some y, Some z, Some v) \<Rightarrow>
          map_option (\<lambda>bytes. b64_bytes (x * 262144 + y * 4096 + z * 64 + v) @ bytes)
            (b64_decode rest)
      | _ \<Rightarrow> None)"
| "b64_decode _ = None"

text \<open>An instance of \<^verbatim>\<open>strings.ToLower\<close>: the ASCII letters, which is all the samples contain.\<close>

definition ascii_lower :: "string \<Rightarrow> string" where
  "ascii_lower s =
     map (\<lambda>c. if 65 \<le> (of_char c :: nat) \<and> (of_char c :: nat) \<le> 90
               then char_of ((of_char c :: nat) + 32) else c) s"

text \<open>
  Modelled from the spec: \<^verbatim>\<open>structs.Map\<close>, \<^verbatim>\<open>mapstructure.Decode\<close> and \<^verbatim>\<open>hashstructure.Hash\<close> at
  the type \<^verbatim>\<open>PolicyRequest\<close>: one entry a field, a decoder that leaves a missing field
  empty and refuses a value that is not a string, and a stand-in for the structural
  hash that weighs the lengths of the fields.
\<close>

definition mem_Map :: "policy_request \<Rightarrow> data" where
  "mem_Map r =
     [''Type'' \<mapsto> VString (Type r), ''Name'' \<mapsto> VString (Name r),
      ''Current'' \<mapsto> VString (Current r), ''Document'' \<mapsto> VString (Document r)]"

definition mem_field :: "data \<Rightarrow> string \<Rightarrow> error + string" where
  "mem_field d key =
     (case d key of
        None \<Rightarrow> Inr ''''
      | Some (VString v) \<Rightarrow> Inr v
      | Some _ \<Rightarrow> Inl (key @ '' expected type string''))"

definition mem_Decode :: "data \<Rightarrow> error + policy_request" where
  "mem_Decode d =
     (case (mem_field d ''Type'', mem_field d ''Name'', mem_field d ''Current'',
            mem_field d ''Document'') of
        (Inr t, Inr n, Inr c, Inr p) \<Rightarrow> Inr (PolicyRequest t n c p)
      | (Inl err, _) \<Rightarrow> Inl err
      | (_, Inl err, _) \<Rightarrow> Inl err
      | (_, _, Inl err, _) \<Rightarrow> Inl err
      | (_, _, _, Inl err) \<Rightarrow> Inl err)"

definition mem_Hash :: "policy_request \<Rightarrow> error + 64 word" where
  "mem_Hash r =
     Inr (of_nat (length (Type r) + 3 * length (Name r) + 5 * length (Current r) +
                  7 * length (Document r)))"

text \<open>
  Modelled from the spec: the methods of \<^verbatim>\<open>PolicyRequest\<close> are not in \<^verbatim>\<open>request.go\<close>. Building
  requires a caller allowed to propose and an existing policy; the validity check
  requires that the policy is still the one the proposal was made against; approval
  applies the document and deletes the stored request; rejection re-checks that the
  caller may see the policy and deletes the stored request.
\<close>

definition mem_build :: "string \<Rightarrow> data \<Rightarrow> backend \<Rightarrow> (error + policy_request) \<times> backend" where
  "mem_build auth raw w =
     (if auth \<notin> set (callers w) then (Inl ''permission denied'', w)
      else (case policies w (string_field raw ''Name'') of
              None \<Rightarrow> (Inl ''Policy not found'', w)
            | Some current \<Rightarrow>
                (Inr (PolicyRequest (string_field raw ''Type'') (string_field raw ''Name'') current
                        (string_field raw ''Document'')), w)))"

definition mem_Verify :: "policy_request \<Rightarrow> string \<Rightarrow> backend \<Rightarrow> error option \<times> backend" where
  "mem_Verify r auth w =
     (if auth \<notin> set (callers w) then (Some ''permission denied'', w)
      else if policies w (Name r) = Some (Current r) then (None, w)
      else (Some ''Policy has changed since request was made'', w))"

definition mem_Approve ::
  "policy_request \<Rightarrow> string \<Rightarrow> string \<Rightarrow> backend \<Rightarrow> error option \<times> backend" where
  "mem_Approve r hash unseal w =
     (None, w\<lparr>policies := (policies w)(Name r \<mapsto> Document r),
               cubbyhole := (cubbyhole w)(''requests/'' @ hash := None)\<rparr>)"

definition mem_Reject ::
  "policy_request \<Rightarrow> string \<Rightarrow> string \<Rightarrow> backend \<Rightarrow> error option \<times> backend" where
  "mem_Reject r auth hash w =
     (if auth \<notin> set (callers w) then (Some ''permission denied'', w)
      else (None, w\<lparr>cubbyhole := (cubbyhole w)(''requests/'' @ hash := None)\<rparr>))"

text \<open>
  Modelled from the spec: the functions of package \<^verbatim>\<open>vault\<close> are not in \<^verbatim>\<open>request.go\<close>. Reading
  and writing the keyed store, wrapping (the next fresh token is handed out), and the
  root generation protocol: every submitted share is recorded, a share that is no key
  share is refused, and from the \<open>threshold\<close>-th share on the status carries the root
  token combined with the pad.
\<close>

definition mem_ReadFromCubbyhole :: "string \<Rightarrow> backend \<Rightarrow> (error + secret option) \<times> backend" where
  "mem_ReadFromCubbyhole path w = (Inr (map_option Secret (cubbyhole w path)), w)"

definition mem_WriteToCubbyhole :: "string \<Rightarrow> data \<Rightarrow> backend \<Rightarrow> error option \<times> backend" where
  "mem_WriteToCubbyhole path d w = (None, w\<lparr>cubbyhole := (cubbyhole w)(path \<mapsto> d)\<rparr>)"

definition mem_WrapData :: "string \<Rightarrow> data \<Rightarrow> backend \<Rightarrow> (error + string) \<times> backend" where
  "mem_WrapData ttl d w =
     (case fresh w of
        [] \<Rightarrow> (Inl ''wrapping failed'', w)
      | token # tokens \<Rightarrow> (Inr token, w\<lparr>fresh := tokens\<rparr>))"

definition mem_GenerateRootInit :: "string \<Rightarrow> backend \<Rightarrow> (error + status) \<times> backend" where
  "mem_GenerateRootInit otp w =
     (Inr (Status '''' ''nonce-1''), w\<lparr>generating := True, pad := otp\<rparr>)"

definition mem_GenerateRootUpdate ::
  "string \<Rightarrow> string \<Rightarrow> backend \<Rightarrow> (error + status) \<times> backend" where
  "mem_GenerateRootUpdate share nonce w =
     (let w1 = w\<lparr>submitted := submitted w @ [share]\<rparr> in
      if share \<notin> set (key_shares w) then (Inl ''invalid key share'', w1)
      else if length (submitted w1) < threshold w then (Inr (Status '''' nonce), w1)
      else (case b64_decode (pad w) of
              None \<Rightarrow> (Inl ''invalid one-time pad'', w1)
            | Some key \<Rightarrow>
                (Inr (Status (b64_encode (map (\<lambda>(x, y). x XOR y) (zip (root w) key))) nonce), w1)))"

definition mem_GenerateRootCancel :: "backend \<Rightarrow> error option \<times> backend" where
  "mem_GenerateRootCancel w =
     (if generating w then (None, w\<lparr>generating := False\<rparr>)
      else (Some ''no root generation in progress'', w))"

definition mem_GenerateRandomKey :: "nat \<Rightarrow> backend \<Rightarrow> 8 word list \<times> backend" where
  "mem_GenerateRandomKey n w = (take n (entropy w), w\<lparr>entropy := drop n (entropy w)\<rparr>)"

definition mem_env :: "(string, policy_request, backend) env" where
  "mem_env =
     \<lparr>vault_ReadFromCubbyhole = mem_ReadFromCubbyhole,
      vault_WriteToCubbyhole = mem_WriteToCubbyhole,
      vault_GenerateRootInit = mem_GenerateRootInit,
      vault_GenerateRootUpdate = mem_GenerateRootUpdate,
      vault_GenerateRootCancel = mem_GenerateRootCancel,
      vault_WrapData = mem_WrapData,
      req_build = mem_build,
      req_Verify = mem_Verify,
      req_Approve = mem_Approve,
      req_Reject = mem_Reject,
      structs_Map = mem_Map,
      mapstructure_Decode = mem_Decode,
      hashstructure_Hash = mem_Hash,
      strings_ToLower = ascii_lower,
      securecookie_GenerateRandomKey = mem_GenerateRandomKey,
      base64_EncodeToString = b64_encode,
      base64_DecodeString = b64_decode\<rparr>"

text \<open>
  A backend with one policy and one caller, a threshold of two key shares, and the root
  token \<^verbatim>\<open>ff...ff\<close>.
\<close>

definition backend0 :: backend where
  "backend0 =
     \<lparr>cubbyhole = Map.empty,
      policies = [''readonly'' \<mapsto> ''path secret/* read''],
      callers = [''alice''],
      fresh = [''4b1a-wrap-1'', ''4b1a-wrap-2'', ''4b1a-wrap-3''],
      key_shares = [''share-1'', ''share-2'', ''share-3''],
      threshold = 2,
      submitted = [],
      generating = False,
      pad = '''',
      root = replicate 16 0xFF,
      entropy = replicate 16 0x00\<rparr>"

text \<open>
  Sample inputs: a proposal for the policy \<^verbatim>\<open>readonly\<close>, whose fingerprint under
  \<open>mem_Hash\<close> is \<^verbatim>\<open>f6\<close>, the request built from it, and package states with an empty
  busy-set and with \<^verbatim>\<open>f6\<close> held.
\<close>

definition proposal :: data where
  "proposal =
     [''Type'' \<mapsto> VString ''Policy'', ''Name'' \<mapsto> VString ''readonly'',
      ''Document'' \<mapsto> VString ''path secret/* deny'']"

definition proposed :: policy_request where
  "proposed = PolicyRequest ''Policy'' ''readonly'' ''path secret/* read'' ''path secret/* deny''"

definition idle :: "backend state" where
  "idle = \<lparr>lockMap = {}, world = backend0\<rparr>"

definition busy :: "backend state" where
  "busy = \<lparr>lockMap = {''f6''}, world = backend0\<rparr>"

text \<open>The same collaborators over a store that refuses every write.\<close>

definition readonly_env :: "(string, policy_request, backend) env" where
  "readonly_env = mem_env\<lparr>vault_WriteToCubbyhole := \<lambda>path d w. (Some ''permission denied'', w)\<rparr>"

text \<open>
  The state after the sample proposal was added; the same with the stored document
  changed behind the back of the package; and the same with the policy on the backend
  changed since the proposal.
\<close>

definition stored :: "backend state" where
  "stored =
     \<lparr>lockMap = {},
      world = backend0\<lparr>cubbyhole := [''requests/f6'' \<mapsto> mem_Map proposed]\<rparr>\<rparr>"



text \<open>
  What the dispatcher needs of a store for a record to be found again: a read that
  follows a successful write of the same path returns the data written.
\<close>

definition read_after_write :: "('a, 'r, 'w) env \<Rightarrow> bool" where
  "read_after_write E \<longleftrightarrow>
     (\<forall>path d w w'. vault_WriteToCubbyhole E path d w = (None, w') \<longrightarrow>
        fst (vault_ReadFromCubbyhole E path w') = Inr (Some (Secret d)))"

text \<open>The same collaborators over a backend that cannot be reached for a cancellation.\<close>

definition unreachable_env :: "(string, policy_request, backend) env" where
  "unreachable_env =
     mem_env\<lparr>vault_GenerateRootCancel := \<lambda>w. (Some ''connection refused'', w)\<rparr>"

text \<open>
  A token is \<open>plain\<close> when it contains no white space rune, no semicolon and no square
  bracket.
\<close>

fun has_space :: "string \<Rightarrow> bool" where
  "has_space [] = False"
| "has_space (c # cs) = (space_width (c # cs) \<noteq> 0 \<or> has_space cs)"

definition plain :: "string \<Rightarrow> bool" where
  "plain t \<longleftrightarrow>
     \<not> has_space t \<and> CHR '';'' \<notin> set t \<and> CHR ''['' \<notin> set t \<and> CHR '']'' \<notin> set t"

text \<open>Backends whose next wrapping token is empty, and contains a semicolon.\<close>

definition backend_empty_token :: backend where
  "backend_empty_token = backend0\<lparr>fresh := ['''', ''4b1a-wrap-2'']\<rparr>"

definition backend_semicolon_token :: backend where
  "backend_semicolon_token = backend0\<lparr>fresh := [''4b1a;wrap-1'', ''4b1a-wrap-2'']\<rparr>"

section \<open>Facts used throughout\<close>

declare hex_nat.simps [simp del]

lemma hex_nat_nonempty: "hex_nat n \<noteq> []"
  by (subst hex_nat.simps) simp

lemma Create_hash_nonempty:
  "Create E auth raw w = (Inr (hash, req), w1) \<Longrightarrow> hash \<noteq> []"
  by (auto simp: Create_def fingerprint_def FormatUint16_def hex_nat_nonempty
      split: prod.splits sum.splits)

lemma mem_env_sel:
  "vault_ReadFromCubbyhole mem_env = mem_ReadFromCubbyhole"
  "vault_WriteToCubbyhole mem_env = mem_WriteToCubbyhole"
  "vault_GenerateRootInit mem_env = mem_GenerateRootInit"
  "vault_GenerateRootUpdate mem_env = mem_GenerateRootUpdate"
  "vault_GenerateRootCancel mem_env = mem_GenerateRootCancel"
  "vault_WrapData mem_env = mem_WrapData"
  "req_build mem_env = mem_build"
  "req_Verify mem_env = mem_Verify"
  "req_Approve mem_env = mem_Approve"
  "req_Reject mem_env = mem_Reject"
  "structs_Map mem_env = mem_Map"
  "mapstructure_Decode mem_env = mem_Decode"
  "hashstructure_Hash mem_env = mem_Hash"
  "strings_ToLower mem_env = ascii_lower"
  "securecookie_GenerateRandomKey mem_env = mem_GenerateRandomKey"
  "base64_EncodeToString mem_env = b64_encode"
  "base64_DecodeString mem_env = b64_decode"
  by (simp_all add: mem_env_def)

lemma hex_nat_246: "hex_nat 246 = ''f6''"
  by code_simp

lemma FormatUint16_246: "FormatUint16 246 = ''f6''"
  by (simp add: FormatUint16_def hex_nat_246)

lemma ascii_lower_Policy: "ascii_lower ''Policy'' = ''policy''"
  by code_simp

lemma proposal_Type: "string_field proposal ''Type'' = ''Policy''"
  by (simp add: proposal_def string_field_def)

lemma fingerprint_proposed:
  "hashstructure_Hash E = mem_Hash \<Longrightarrow> fingerprint E proposed = Inr ''f6''"
  by (simp add: fingerprint_def mem_Hash_def proposed_def FormatUint16_246)

lemma mem_build_proposal: "mem_build ''alice'' proposal backend0 = (Inr proposed, backend0)"
  by (simp add: mem_build_def backend0_def proposal_def string_field_def proposed_def)

lemma Create_proposal:
  "req_build E = mem_build \<Longrightarrow> hashstructure_Hash E = mem_Hash \<Longrightarrow>
   Create E ''alice'' proposal backend0 = (Inr (''f6'', proposed), backend0)"
  by (simp add: Create_def mem_build_proposal fingerprint_proposed)

section \<open>Add when the write fails\<close>

text \<open>
  C10. If the backend write that persists a newly built request fails, \<^verbatim>\<open>Add\<close> returns the
  computed fingerprint, which is not empty, together with the error of the write, and
  not an empty identifier. The busy-set is as before, and the world is as the failed
  write left it.
\<close>

theorem add_write_error_returns_fingerprint:
  assumes "string_field raw ''Type'' \<noteq> ''''"
    and "strings_ToLower E (string_field raw ''Type'') = ''policy''"
    and "Create E auth raw (world s) = (Inr (hash, req), w1)"
    and "hash \<notin> lockMap s"
    and "vault_WriteToCubbyhole E (''requests/'' @ hash) (structs_Map E req) w1 = (Some err, w2)"
  shows "Add E auth raw s = ((hash, Some err), \<lparr>lockMap = lockMap s, world = w2\<rparr>) \<and> hash \<noteq> ''''"
  using assms Create_hash_nonempty[OF assms(3)]
  by (simp add: Add_def LoadOrStore_def Delete_def)

text \<open>The sample proposal over a store that refuses every write.\<close>

theorem add_write_error_returns_fingerprint_witness:
  "Add readonly_env ''alice'' proposal idle = ((''f6'', Some ''permission denied''), idle)"
proof -
  have sel: "strings_ToLower readonly_env = ascii_lower" "req_build readonly_env = mem_build"
    "hashstructure_Hash readonly_env = mem_Hash" "structs_Map readonly_env = mem_Map"
    "vault_WriteToCubbyhole readonly_env = (\<lambda>path d w. (Some ''permission denied'', w))"
    by (simp_all add: readonly_env_def mem_env_def)
  have c: "Create readonly_env ''alice'' proposal (world idle) = (Inr (''f6'', proposed), backend0)"
    by (simp add: Create_proposal sel idle_def)
  have "Add readonly_env ''alice'' proposal idle =
          ((''f6'', Some ''permission denied''), \<lparr>lockMap = lockMap idle, world = backend0\<rparr>) \<and> ''f6'' \<noteq> ''''"
    by (rule add_write_error_returns_fingerprint[OF _ _ c])
       (simp_all add: proposal_Type sel ascii_lower_Policy idle_def)
  then show ?thesis by (simp add: idle_def)
qed

section \<open>The busy-set\<close>

text \<open>
  C3. When the fingerprint is already in the busy-set, \<^verbatim>\<open>Get\<close>, \<^verbatim>\<open>Approve\<close> and \<^verbatim>\<open>Reject\<close> fail
  at once with ``Someone else is currently editing this request'' and leave the whole
  state as it was: the entry stays, and the world is untouched, whatever the
  collaborators are, so the stored request was neither read nor written. \<^verbatim>\<open>Add\<close> learns
  the fingerprint from \<^verbatim>\<open>Create\<close>; when that fingerprint is held it fails with the same
  error, the entry stays, and the world is the one \<^verbatim>\<open>Create\<close> left, so nothing was
  written to the store.
\<close>

theorem busy_fingerprint_conflict:
  assumes "hash \<in> lockMap s"
  shows "Get E auth hash s = (Inl ''Someone else is currently editing this request'', s) \<and>
         Approve E auth hash unseal s = (Some ''Someone else is currently editing this request'', s) \<and>
         Reject E auth hash s = (Some ''Someone else is currently editing this request'', s) \<and>
         (string_field raw ''Type'' \<noteq> '''' \<and>
          strings_ToLower E (string_field raw ''Type'') = ''policy'' \<and>
          Create E auth raw (world s) = (Inr (hash, req), w1) \<longrightarrow>
            Add E auth raw s =
              (('''', Some ''Someone else is currently editing this request''), s\<lparr>world := w1\<rparr>) \<and>
            hash \<in> lockMap (snd (Add E auth raw s)))"
  using assms
  by (simp add: Get_def Approve_def Reject_def Add_def LoadOrStore_def insert_absorb)

text \<open>The sample proposal and its fingerprint \<^verbatim>\<open>f6\<close> while \<^verbatim>\<open>f6\<close> is held.\<close>

theorem busy_fingerprint_conflict_witness:
  "''f6'' \<in> lockMap busy \<and>
   Get mem_env ''alice'' ''f6'' busy = (Inl ''Someone else is currently editing this request'', busy) \<and>
   Approve mem_env ''alice'' ''f6'' '''' busy = (Some ''Someone else is currently editing this request'', busy) \<and>
   Reject mem_env ''alice'' ''f6'' busy = (Some ''Someone else is currently editing this request'', busy) \<and>
   Add mem_env ''alice'' proposal busy = (('''', Some ''Someone else is currently editing this request''), busy)"
proof -
  have held: "''f6'' \<in> lockMap busy"
    by (simp add: busy_def)
  have c: "Create mem_env ''alice'' proposal (world busy) = (Inr (''f6'', proposed), backend0)"
    by (simp add: Create_proposal mem_env_sel busy_def)
  have t: "string_field proposal ''Type'' \<noteq> ''''"
    "strings_ToLower mem_env (string_field proposal ''Type'') = ''policy''"
    by (simp_all add: proposal_Type mem_env_sel ascii_lower_Policy)
  have "busy\<lparr>world := backend0\<rparr> = busy"
    by (simp add: busy_def)
  with busy_fingerprint_conflict[OF held, of mem_env "''alice''" "''''" proposal proposed backend0] held c t
  show ?thesis by simp
qed

section \<open>Release\<close>

lemma Get_lockMap: "lockMap (snd (Get E auth hash s)) = lockMap s"
  by (cases "hash \<in> lockMap s")
     (auto simp: Get_def LoadOrStore_def Delete_def split: prod.splits sum.splits option.splits)

lemma Approve_lockMap: "lockMap (snd (Approve E auth hash unseal s)) = lockMap s"
  by (cases "hash \<in> lockMap s")
     (auto simp: Approve_def LoadOrStore_def Delete_def split: prod.splits sum.splits option.splits)

lemma Reject_lockMap: "lockMap (snd (Reject E auth hash s)) = lockMap s"
  by (cases "hash \<in> lockMap s")
     (auto simp: Reject_def LoadOrStore_def Delete_def split: prod.splits sum.splits option.splits)

lemma Add_lockMap: "lockMap (snd (Add E auth raw s)) = lockMap s"
  by (auto simp: Add_def LoadOrStore_def Delete_def Let_def
      split: prod.splits sum.splits option.splits bool.splits)

text \<open>
  C4. A call of \<^verbatim>\<open>Get\<close>, \<^verbatim>\<open>Approve\<close> or \<^verbatim>\<open>Reject\<close> claims its fingerprint exactly when the
  fingerprint is not in the busy-set, and a call of \<^verbatim>\<open>Add\<close> claims the fingerprint that
  \<^verbatim>\<open>Create\<close> computed when that is not in the busy-set. Whatever the call then returns,
  a result or any error, a fingerprint that was not in the busy-set before the call is
  not in it afterwards; for \<^verbatim>\<open>Add\<close> this holds of every fingerprint, so also of the one
  it claimed.
\<close>

theorem lock_released_on_return:
  assumes "hash \<notin> lockMap s"
  shows "hash \<notin> lockMap (snd (Get E auth hash s)) \<and>
         hash \<notin> lockMap (snd (Approve E auth hash unseal s)) \<and>
         hash \<notin> lockMap (snd (Reject E auth hash s)) \<and>
         hash \<notin> lockMap (snd (Add E auth raw s))"
  using assms by (simp add: Get_lockMap Approve_lockMap Reject_lockMap Add_lockMap)

text \<open>
  On the empty store \<^verbatim>\<open>Get\<close>, \<^verbatim>\<open>Approve\<close> and \<^verbatim>\<open>Reject\<close> of \<^verbatim>\<open>f6\<close> leave through the error
  ``Change ID not found'', and \<^verbatim>\<open>Add\<close> of the sample proposal claims \<^verbatim>\<open>f6\<close> and succeeds.
\<close>

theorem lock_released_on_return_witness:
  "''f6'' \<notin> lockMap idle \<and>
   fst (Get mem_env ''alice'' ''f6'' idle) = Inl ''Change ID not found'' \<and>
   ''f6'' \<notin> lockMap (snd (Get mem_env ''alice'' ''f6'' idle)) \<and>
   ''f6'' \<notin> lockMap (snd (Approve mem_env ''alice'' ''f6'' '''' idle)) \<and>
   ''f6'' \<notin> lockMap (snd (Reject mem_env ''alice'' ''f6'' idle)) \<and>
   ''f6'' \<notin> lockMap (snd (Add mem_env ''alice'' proposal idle))"
proof -
  have free: "''f6'' \<notin> lockMap idle"
    by (simp add: idle_def)
  have g: "fst (Get mem_env ''alice'' ''f6'' idle) = Inl ''Change ID not found''"
    by (simp add: Get_def LoadOrStore_def idle_def load_request_def mem_env_sel
        mem_ReadFromCubbyhole_def backend0_def)
  from lock_released_on_return[OF free, of mem_env "''alice''" "''''" proposal] free g
  show ?thesis by simp
qed

section \<open>Loading a stored request\<close>

lemma load_request_found:
  assumes "vault_ReadFromCubbyhole E (''requests/'' @ hash) w = (Inr (Some resp), w1)"
    and "string_field (Data resp) ''Type'' \<noteq> ''''"
    and "strings_ToLower E (string_field (Data resp) ''Type'') = ''policy''"
    and "mapstructure_Decode E (Data resp) = Inr req"
  shows "load_request E hash w =
           (if fingerprint E req = Inr hash then (Inr req, w1) else (Inl ''Hashes do not match'', w1))"
  using assms by (simp add: load_request_def)

lemma load_request_Inr:
  "load_request E hash w = (Inr req, w1) \<Longrightarrow> fingerprint E req = Inr hash"
  by (auto simp: load_request_def Let_def split: prod.splits sum.splits option.splits if_splits)

lemma Get_free:
  "hash \<notin> lockMap s \<Longrightarrow>
   Get E auth hash s =
     (case load_request E hash (world s) of
        (Inl err, w1) \<Rightarrow> (Inl err, \<lparr>lockMap = lockMap s, world = w1\<rparr>)
      | (Inr req, w1) \<Rightarrow>
          (case req_Verify E req auth w1 of
             (Some err, w2) \<Rightarrow> (Inl err, \<lparr>lockMap = lockMap s, world = w2\<rparr>)
           | (None, w2) \<Rightarrow> (Inr req, \<lparr>lockMap = lockMap s, world = w2\<rparr>)))"
  by (simp add: Get_def LoadOrStore_def Delete_def split: prod.splits sum.splits option.splits)




lemma mem_Map_Type: "string_field (mem_Map r) ''Type'' = Type r"
  by (simp add: mem_Map_def string_field_def)

lemma mem_Decode_Map: "mem_Decode (mem_Map r) = Inr r"
  by (simp add: mem_Decode_def mem_Map_def mem_field_def)




section \<open>Requests that went stale\<close>






section \<open>Add, then Get\<close>

lemma Add_accepted:
  assumes "Add E auth raw s = ((hash, None), s1)"
  obtains req w1 w2 where
    "Create E auth raw (world s) = (Inr (hash, req), w1)"
    "hash \<notin> lockMap s"
    "vault_WriteToCubbyhole E (''requests/'' @ hash) (structs_Map E req) w1 = (None, w2)"
    "s1 = \<lparr>lockMap = lockMap s, world = w2\<rparr>"
  using assms
  by (auto simp: Add_def Let_def LoadOrStore_def Delete_def
      split: if_splits prod.splits sum.splits bool.splits)

lemma Create_built:
  "Create E auth raw w = (Inr (hash, req), w1) \<Longrightarrow>
   fst (req_build E auth raw w) = Inr req \<and> fingerprint E req = Inr hash"
  by (auto simp: Create_def split: prod.splits sum.splits)

text \<open>
  C2. \<^verbatim>\<open>Add\<close> accepted the raw fields and returned the identifier \<open>hash\<close> without an
  error. The store returns what was written to it, the record that \<^verbatim>\<open>structs.Map\<close> makes
  of the request decodes to the request again and carries a policy type, and the
  request passes its validity check. Then \<^verbatim>\<open>Get\<close> with that identifier returns the
  request, and the fingerprint recomputed from it is the identifier.
\<close>

theorem add_then_get_round_trip:
  assumes "read_after_write E"
    and "Add E auth raw s = ((hash, None), s1)"
    and "fst (req_build E auth raw (world s)) = Inr req"
    and "mapstructure_Decode E (structs_Map E req) = Inr req"
    and "string_field (structs_Map E req) ''Type'' \<noteq> ''''"
    and "strings_ToLower E (string_field (structs_Map E req) ''Type'') = ''policy''"
    and "fst (req_Verify E req auth'
                (snd (vault_ReadFromCubbyhole E (''requests/'' @ hash) (world s1)))) = None"
  shows "fst (Get E auth' hash s1) = Inr req \<and> fingerprint E req = Inr hash"
proof -
  from assms(2) obtain req' w1 w2 where
    c: "Create E auth raw (world s) = (Inr (hash, req'), w1)" and
    free: "hash \<notin> lockMap s" and
    wr: "vault_WriteToCubbyhole E (''requests/'' @ hash) (structs_Map E req') w1 = (None, w2)" and
    s1: "s1 = \<lparr>lockMap = lockMap s, world = w2\<rparr>"
    by (rule Add_accepted)
  from Create_built[OF c] assms(3) have req: "req' = req" and fp: "fingerprint E req = Inr hash"
    by simp_all
  obtain w3 where rd: "vault_ReadFromCubbyhole E (''requests/'' @ hash) w2 =
      (Inr (Some (Secret (structs_Map E req))), w3)"
    using assms(1) wr req unfolding read_after_write_def
    by (metis prod.collapse)
  have ld: "load_request E hash w2 = (Inr req, w3)"
    using rd assms(4-6) fp by (simp add: load_request_found)
  obtain w4 where vf: "req_Verify E req auth' w3 = (None, w4)"
    using assms(7) rd s1 by (cases "req_Verify E req auth' w3") simp
  have "hash \<notin> lockMap s1"
    using free s1 by simp
  then have "fst (Get E auth' hash s1) = Inr req"
    using ld vf s1 by (simp add: Get_free)
  with fp show ?thesis by simp
qed

lemma read_after_write_mem_env: "read_after_write mem_env"
  by (auto simp: read_after_write_def mem_env_sel mem_WriteToCubbyhole_def mem_ReadFromCubbyhole_def)

lemma Add_proposal: "Add mem_env ''alice'' proposal idle = ((''f6'', None), stored)"
proof -
  have "Create mem_env ''alice'' proposal (world idle) = (Inr (''f6'', proposed), backend0)"
    by (simp add: Create_proposal mem_env_sel idle_def)
  moreover have "vault_WriteToCubbyhole mem_env (''requests/'' @ ''f6'') (structs_Map mem_env proposed)
      backend0 = (None, world stored)"
    by (simp add: mem_env_sel mem_WriteToCubbyhole_def stored_def backend0_def)
  moreover have "LoadOrStore ''f6'' (lockMap idle) = (False, {''f6''})"
    by (simp add: LoadOrStore_def idle_def)
  moreover have "\<lparr>lockMap = Delete ''f6'' {''f6''}, world = world stored\<rparr> = stored"
    by (simp add: Delete_def stored_def)
  ultimately show ?thesis
    by (simp add: Add_def proposal_Type mem_env_sel(14) ascii_lower_Policy)
qed

text \<open>The sample proposal, added to the empty store and fetched again.\<close>

theorem add_then_get_round_trip_witness:
  "Add mem_env ''alice'' proposal idle = ((''f6'', None), stored) \<and>
   fst (Get mem_env ''alice'' ''f6'' stored) = Inr proposed \<and>
   fingerprint mem_env proposed = Inr ''f6''"
proof -
  have b: "fst (req_build mem_env ''alice'' proposal (world idle)) = Inr proposed"
    by (simp add: mem_env_sel mem_build_proposal idle_def)
  have dec: "mapstructure_Decode mem_env (structs_Map mem_env proposed) = Inr proposed"
    by (simp add: mem_env_sel mem_Decode_Map)
  have ty: "string_field (structs_Map mem_env proposed) ''Type'' \<noteq> ''''"
    "strings_ToLower mem_env (string_field (structs_Map mem_env proposed) ''Type'') = ''policy''"
    by (simp_all add: mem_env_sel mem_Map_Type proposed_def ascii_lower_Policy)
  have vf: "fst (req_Verify mem_env proposed ''alice''
                (snd (vault_ReadFromCubbyhole mem_env (''requests/'' @ ''f6'') (world stored)))) = None"
    by (simp add: mem_env_sel mem_ReadFromCubbyhole_def mem_Verify_def stored_def backend0_def
        proposed_def)
  from add_then_get_round_trip[OF read_after_write_mem_env Add_proposal b dec ty vf] Add_proposal
  show ?thesis by simp
qed

section \<open>Root token reconstruction: the share loop\<close>

lemma update_shares_append:
  "update_shares E (xs @ ys) status w =
     (case update_shares E xs status w of
        (Inl errS, w') \<Rightarrow> (Inl errS, w')
      | (Inr status', w') \<Rightarrow> update_shares E ys status' w')"
  by (induction xs arbitrary: status w)
     (auto simp: Let_def split: prod.splits sum.splits option.splits)

text \<open>
  C6. Root generation was initiated and the backend has not produced a token yet; the
  shares \<open>accepted\<close> were each applied without error, and the update with the next
  share fails with \<open>err\<close>. Then the backend is asked to cancel, and the function returns
  no token and the error ``Could not generate root token: '' followed by \<open>err\<close>, to
  which a failure \<open>err2\<close> of the cancellation is appended after ``. Attempted to cancel
  root generation, but: ''. The world is the one the cancellation left, whatever shares
  \<open>later\<close> follow the failing one: none of them is submitted.
\<close>

theorem failed_share_update_aborts:
  assumes "securecookie_GenerateRandomKey E 16 w = (key, w0)"
    and "vault_GenerateRootInit E (base64_EncodeToString E key) w0 = (Inr status, w1)"
    and "EncodedRootToken status = ''''"
    and "update_shares E accepted status w1 = (Inr status', w2)"
    and "vault_GenerateRootUpdate E share (Nonce status') w2 = (Inl err, w3)"
    and "vault_GenerateRootCancel E w3 = (cancel, w4)"
  shows "generateRootToken E (accepted @ share # later) w =
           (('''', Some (''Could not generate root token: '' @ err @
                         (case cancel of
                            None \<Rightarrow> ''''
                          | Some err2 \<Rightarrow> ''. Attempted to cancel root generation, but: '' @ err2))),
            w4)"
proof -
  have "update_shares E (share # later) status' w2 =
          (Inl (''Could not generate root token: '' @ err @
                (case cancel of
                   None \<Rightarrow> ''''
                 | Some err2 \<Rightarrow> ''. Attempted to cancel root generation, but: '' @ err2)), w4)"
    using assms(5,6) by (cases cancel) simp_all
  then have "update_shares E (accepted @ share # later) status w1 =
          (Inl (''Could not generate root token: '' @ err @
                (case cancel of
                   None \<Rightarrow> ''''
                 | Some err2 \<Rightarrow> ''. Attempted to cancel root generation, but: '' @ err2)), w4)"
    using assms(4) by (simp add: update_shares_append)
  then show ?thesis
    using assms(1-3) by (simp add: generateRootToken_def)
qed

text \<open>
  C7. Root generation was initiated without a token, every supplied share was applied
  without error, and the last status still has no encoded token. Then the function
  returns no token and the error ``Could not generate root token. Was vault re-keyed
  just now?''. Every error of a failed share starts with ``Could not generate root
  token: '', so this error is none of them.
\<close>

theorem quorum_not_reached:
  assumes "securecookie_GenerateRandomKey E 16 w = (key, w0)"
    and "vault_GenerateRootInit E (base64_EncodeToString E key) w0 = (Inr status, w1)"
    and "EncodedRootToken status = ''''"
    and "update_shares E unsealKeys status w1 = (Inr status', w2)"
    and "EncodedRootToken status' = ''''"
  shows "generateRootToken E unsealKeys w =
           (('''', Some ''Could not generate root token. Was vault re-keyed just now?''), w2) \<and>
         (\<forall>err rest. ''Could not generate root token. Was vault re-keyed just now?'' \<noteq>
            ''Could not generate root token: '' @ err @ rest)"
  using assms by (simp add: generateRootToken_def)




lemma XORBase64_Some:
  "XORBase64 E a b = Some bytes \<longleftrightarrow>
     (\<exists>aBytes bBytes. base64_DecodeString E a = Some aBytes \<and> base64_DecodeString E b = Some bBytes \<and>
        aBytes \<noteq> [] \<and> length aBytes = length bBytes \<and>
        bytes = map (\<lambda>(x, y). x XOR y) (zip aBytes bBytes))"
  by (auto simp: XORBase64_def XORBuffers_def split: option.splits)

section \<open>Root token reconstruction on the in-memory backend\<close>

lemma RandomKey_backend0:
  "mem_GenerateRandomKey 16 backend0 = (replicate 16 0, backend0\<lparr>entropy := []\<rparr>)"
  by (simp add: mem_GenerateRandomKey_def backend0_def)

lemma Init_backend0:
  "mem_GenerateRootInit otp (backend0\<lparr>entropy := []\<rparr>) =
     (Inr (Status '''' ''nonce-1''), backend0\<lparr>entropy := [], generating := True, pad := otp\<rparr>)"
  by (simp add: mem_GenerateRootInit_def backend0_def)

lemma Update_first:
  "mem_GenerateRootUpdate ''share-1'' nonce (backend0\<lparr>entropy := [], generating := True, pad := otp\<rparr>) =
     (Inr (Status '''' nonce),
      backend0\<lparr>entropy := [], generating := True, pad := otp, submitted := [''share-1'']\<rparr>)"
  by (simp add: mem_GenerateRootUpdate_def backend0_def)

lemma Update_bad:
  "mem_GenerateRootUpdate ''bad'' nonce
     (backend0\<lparr>entropy := [], generating := True, pad := otp, submitted := [''share-1'']\<rparr>) =
     (Inl ''invalid key share'',
      backend0\<lparr>entropy := [], generating := True, pad := otp, submitted := [''share-1'', ''bad'']\<rparr>)"
  by (simp add: mem_GenerateRootUpdate_def backend0_def)

text \<open>
  Three shares of which the second is not a key share, over a backend that cannot be
  reached for the cancellation: the third share is never submitted.
\<close>

theorem failed_share_update_aborts_witness:
  "fst (generateRootToken unreachable_env [''share-1'', ''bad'', ''share-2''] backend0) =
     ('''', Some ''Could not generate root token: invalid key share. Attempted to cancel root generation, but: connection refused'') \<and>
   submitted (snd (generateRootToken unreachable_env [''share-1'', ''bad'', ''share-2''] backend0)) =
     [''share-1'', ''bad'']"
proof -
  let ?otp = "base64_EncodeToString unreachable_env (replicate 16 0)"
  let ?w1 = "backend0\<lparr>entropy := [], generating := True, pad := ?otp\<rparr>"
  let ?w3 = "backend0\<lparr>entropy := [], generating := True, pad := ?otp, submitted := [''share-1'', ''bad'']\<rparr>"
  have sel: "securecookie_GenerateRandomKey unreachable_env = mem_GenerateRandomKey"
    "vault_GenerateRootInit unreachable_env = mem_GenerateRootInit"
    "vault_GenerateRootUpdate unreachable_env = mem_GenerateRootUpdate"
    "vault_GenerateRootCancel unreachable_env = (\<lambda>w. (Some ''connection refused'', w))"
    by (simp_all add: unreachable_env_def mem_env_def)
  have k: "securecookie_GenerateRandomKey unreachable_env 16 backend0 =
             (replicate 16 0, backend0\<lparr>entropy := []\<rparr>)"
    by (simp add: sel RandomKey_backend0)
  have i: "vault_GenerateRootInit unreachable_env ?otp (backend0\<lparr>entropy := []\<rparr>) =
             (Inr (Status '''' ''nonce-1''), ?w1)"
    by (simp add: sel(2) Init_backend0)
  have e: "EncodedRootToken (Status '''' ''nonce-1'') = ''''"
    by simp
  have a: "update_shares unreachable_env [''share-1''] (Status '''' ''nonce-1'') ?w1 =
             (Inr (Status '''' ''nonce-1''),
              backend0\<lparr>entropy := [], generating := True, pad := ?otp, submitted := [''share-1'']\<rparr>)"
    by (simp add: sel(3) Update_first)
  have b: "vault_GenerateRootUpdate unreachable_env ''bad'' (Nonce (Status '''' ''nonce-1''))
             (backend0\<lparr>entropy := [], generating := True, pad := ?otp, submitted := [''share-1'']\<rparr>) =
             (Inl ''invalid key share'', ?w3)"
    by (simp add: sel(3) Update_bad)
  have c: "vault_GenerateRootCancel unreachable_env ?w3 = (Some ''connection refused'', ?w3)"
    by (simp add: sel(4))
  from failed_share_update_aborts[OF k i e a b c, of "[''share-2'']"]
  show ?thesis by simp
qed

text \<open>One valid share where two are needed.\<close>

theorem quorum_not_reached_witness:
  "fst (generateRootToken mem_env [''share-1''] backend0) =
     ('''', Some ''Could not generate root token. Was vault re-keyed just now?'')"
proof -
  let ?otp = "base64_EncodeToString mem_env (replicate 16 0)"
  let ?w1 = "backend0\<lparr>entropy := [], generating := True, pad := ?otp\<rparr>"
  have k: "securecookie_GenerateRandomKey mem_env 16 backend0 =
             (replicate 16 0, backend0\<lparr>entropy := []\<rparr>)"
    by (simp add: mem_env_sel RandomKey_backend0)
  have i: "vault_GenerateRootInit mem_env ?otp (backend0\<lparr>entropy := []\<rparr>) =
             (Inr (Status '''' ''nonce-1''), ?w1)"
    by (simp add: mem_env_sel(3) Init_backend0)
  have e: "EncodedRootToken (Status '''' ''nonce-1'') = ''''"
    by simp
  have a: "update_shares mem_env [''share-1''] (Status '''' ''nonce-1'') ?w1 =
             (Inr (Status '''' ''nonce-1''),
              backend0\<lparr>entropy := [], generating := True, pad := ?otp, submitted := [''share-1'']\<rparr>)"
    by (simp add: mem_env_sel(4) Update_first)
  from quorum_not_reached[OF k i e a e]
  show ?thesis by simp
qed













section \<open>The share bundle: what is written and what is read back\<close>

lemma space_width_snoc:
  assumes "space_width (c # cs) = 0" and "x = CHR '' '' \<or> x = CHR '']''"
  shows "space_width (c # cs @ x # r) = 0"
proof (cases cs)
  case Nil
  with assms show ?thesis
    by (cases r) (auto simp: space2_def space3_def split: if_splits)
next
  case (Cons c2 cs')
  with assms show ?thesis
    by (cases cs') (auto simp: space2_def space3_def split: if_splits)
qed

lemma space_width_blank: "space_width (CHR '' '' # r) = 1"
proof (cases r)
  case Nil
  then show ?thesis by (simp add: ascii_space_def)
next
  case (Cons c2 r')
  then show ?thesis by (cases r') (simp_all add: ascii_space_def)
qed

lemma fields_from_plain:
  assumes "\<not> has_space t" and "x = CHR '' '' \<or> x = CHR '']''"
  shows "fields_from cur (t @ x # r) = fields_from (cur @ t) (x # r)"
  using assms(1)
proof (induction t arbitrary: cur)
  case Nil
  then show ?case by simp
next
  case (Cons c cs)
  then have "space_width (c # cs) = 0" and "\<not> has_space cs"
    by simp_all
  then have "space_width (c # cs @ x # r) = 0"
    using assms(2) by (simp add: space_width_snoc)
  then have "fields_from cur ((c # cs) @ x # r) = fields_from (cur @ [c]) (cs @ x # r)"
    by simp
  also have "\<dots> = fields_from ((cur @ [c]) @ cs) (x # r)"
    using \<open>\<not> has_space cs\<close> by (rule Cons.IH)
  finally show ?case by simp
qed

lemma fields_from_blank:
  "fields_from cur (CHR '' '' # r) = (if cur = [] then [] else [cur]) @ fields_from [] r"
  by (simp add: space_width_blank)

lemma fields_from_bracket: "fields_from cur '']'' = [cur @ '']'']"
  by (simp add: ascii_space_def)

lemma Join_Cons: "ts \<noteq> [] \<Longrightarrow> Join (t # ts) sep = t @ sep @ Join ts sep"
  by (cases ts) simp_all

lemma Join_nonempty:
  "ts \<noteq> [] \<Longrightarrow> \<forall>t\<in>set ts. t \<noteq> [] \<Longrightarrow> Join ts sep \<noteq> []"
  by (cases ts; cases "tl ts") simp_all

lemma hd_Join:
  "ts \<noteq> [] \<Longrightarrow> \<forall>t\<in>set ts. t \<noteq> [] \<Longrightarrow> hd (Join ts sep) = hd (hd ts)"
  by (cases ts; cases "tl ts") (simp_all add: Join_Cons)

lemma last_Join:
  "ts \<noteq> [] \<Longrightarrow> \<forall>t\<in>set ts. t \<noteq> [] \<Longrightarrow> last (Join ts sep) = last (last ts)"
proof (induction ts rule: list_nonempty_induct)
  case (single t)
  then show ?case by simp
next
  case (cons t ts)
  then have "Join ts sep \<noteq> []"
    by (simp add: Join_nonempty)
  with cons show ?case
    by (simp add: Join_Cons)
qed

text \<open>
  The fields of the printed list are the tokens, the first with the opening and the
  last with the closing bracket; joined by semicolons they are the joined tokens in
  brackets.
\<close>

lemma Join_fields_from:
  assumes "ts \<noteq> []" and "\<forall>t\<in>set ts. \<not> has_space t \<and> t \<noteq> []"
  shows "Join (fields_from cur (Join ts '' '' @ '']'')) '';'' = cur @ Join ts '';'' @ '']''"
  using assms
proof (induction ts arbitrary: cur rule: list_nonempty_induct)
  case (single t)
  then have "fields_from cur (t @ '']'') = fields_from (cur @ t) '']''"
    by (simp add: fields_from_plain)
  then show ?case
    by (simp add: fields_from_bracket del: fields_from.simps)
next
  case (cons t ts)
  let ?rest = "Join ts '' '' @ '']''"
  have t: "\<not> has_space t" "t \<noteq> []" and ts: "\<forall>t\<in>set ts. \<not> has_space t \<and> t \<noteq> []"
    using cons.prems by simp_all
  have ih: "Join (fields_from [] ?rest) '';'' = Join ts '';'' @ '']''"
    using cons.IH[OF ts, of "[]"] by simp
  then have ne: "fields_from [] ?rest \<noteq> []"
    by auto
  have "fields_from cur (Join (t # ts) '' '' @ '']'') = fields_from cur (t @ CHR '' '' # ?rest)"
    using cons.hyps by (simp add: Join_Cons)
  also have "\<dots> = fields_from (cur @ t) (CHR '' '' # ?rest)"
    using t(1) by (simp add: fields_from_plain)
  also have "\<dots> = (cur @ t) # fields_from [] ?rest"
    using t(2) by (simp add: fields_from_blank del: fields_from.simps)
  finally have "Join (fields_from cur (Join (t # ts) '' '' @ '']'')) '';'' =
      (cur @ t) @ '';'' @ Join (fields_from [] ?rest) '';''"
    using ne by (simp add: Join_Cons)
  with ih show ?case
    using cons.hyps by (simp add: Join_Cons)
qed

lemma Trim_brackets:
  assumes "s \<noteq> []" and "hd s \<notin> set ''[]''" and "last s \<notin> set ''[]''"
  shows "Trim (''['' @ s @ '']'') ''[]'' = s"
proof -
  let ?p = "\<lambda>c. c \<in> set ''[]''"
  have "dropWhile ?p (''['' @ s @ '']'') = s @ '']''"
    using assms(1,2) by (cases s) simp_all
  moreover have "dropWhile ?p (rev (s @ '']'')) = rev s"
    using assms(1,3) by (cases s rule: rev_cases) simp_all
  ultimately show ?thesis
    by (simp add: Trim_def)
qed

lemma Split_none: "sep \<notin> set t \<Longrightarrow> Split t sep = [t]"
  by (induction t) auto

lemma Split_append: "sep \<notin> set t \<Longrightarrow> Split (t @ sep # r) sep = t # Split r sep"
  by (induction t) auto

lemma Split_Join:
  "ts \<noteq> [] \<Longrightarrow> \<forall>t\<in>set ts. sep \<notin> set t \<Longrightarrow> Split (Join ts [sep]) sep = ts"
  by (induction ts rule: list_nonempty_induct) (simp_all add: Split_none Split_append Join_Cons)

text \<open>
  What line 302 writes for plain, non-empty tokens: the tokens joined by semicolons,
  which is not the empty string and splits into the tokens again.
\<close>

lemma written_bundle:
  assumes "ts \<noteq> []" and "\<forall>t\<in>set ts. plain t \<and> t \<noteq> []"
  shows "Trim (Join (Fields (Sprint ts)) '';'') ''[]'' = Join ts '';''"
    and "Join ts '';'' \<noteq> []"
    and "Split (Join ts '';'') CHR '';'' = ts"
proof -
  have ne: "\<forall>t\<in>set ts. t \<noteq> []" and sp: "\<forall>t\<in>set ts. \<not> has_space t \<and> t \<noteq> []"
    using assms(2) by (simp_all add: plain_def)
  have "fields_from [] (Sprint ts) = fields_from ''['' (Join ts '' '' @ '']'')"
    by (simp add: Sprint_def ascii_space_def split: list.splits)
       (cases "Join ts '' '' @ '']''"; cases "tl (Join ts '' '' @ '']'')"; simp add: ascii_space_def space2_def space3_def)
  then have j: "Join (Fields (Sprint ts)) '';'' = ''['' @ Join ts '';'' @ '']''"
    using Join_fields_from[OF assms(1) sp, of "''[''"] by (simp add: Fields_def)
  show n: "Join ts '';'' \<noteq> []"
    using assms(1) ne by (rule Join_nonempty)
  have "hd ts \<in> set ts" "last ts \<in> set ts"
    using assms(1) by simp_all
  then have "plain (hd ts)" "hd ts \<noteq> []" "plain (last ts)" "last ts \<noteq> []"
    using assms(2) by blast+
  then have "hd (hd ts) \<notin> set ''[]''" "last (last ts) \<notin> set ''[]''"
    by (auto simp: plain_def dest: hd_in_set last_in_set)
  then have "hd (Join ts '';'') \<notin> set ''[]''" "last (Join ts '';'') \<notin> set ''[]''"
    using assms(1) ne by (simp_all add: hd_Join last_Join)
  with n show "Trim (Join (Fields (Sprint ts)) '';'') ''[]'' = Join ts '';''"
    unfolding j by (rule Trim_brackets)
  show "Split (Join ts '';'') CHR '';'' = ts"
    using assms by (simp add: Split_Join plain_def)
qed

lemma appendUnseal_accepted:
  assumes "appendUnseal E hash unseal w = ((tokens, None), w')"
  obtains w2 where
    "tokens \<noteq> []"
    "vault_WriteToCubbyhole E (''unseal_wrapping_tokens/'' @ hash)
       [''wrapping_tokens'' \<mapsto> VString (Trim (Join (Fields (Sprint tokens)) '';'') ''[]'')] w2 =
     (None, w')"
  using assms
  by (auto simp: appendUnseal_def Let_def split: prod.splits sum.splits)

lemma read_bundle_written:
  assumes "ts \<noteq> []" and "\<forall>t\<in>set ts. plain t \<and> t \<noteq> []"
  shows "read_bundle
           (Some (Secret [''wrapping_tokens'' \<mapsto>
                            VString (Trim (Join (Fields (Sprint ts)) '';'') ''[]'')])) = Inr ts"
  using written_bundle[OF assms] by (simp add: read_bundle_def string_field_def)

lemma appendUnseal_next:
  assumes "fst (vault_ReadFromCubbyhole E (''unseal_wrapping_tokens/'' @ hash) w) = Inr resp"
    and "read_bundle resp = Inr ts"
    and "vault_WrapData E ''60m'' [''unseal_token'' \<mapsto> VString unseal]
           (snd (vault_ReadFromCubbyhole E (''unseal_wrapping_tokens/'' @ hash) w)) = (Inr token, w2)"
  shows "fst (fst (appendUnseal E hash unseal w)) = ts @ [token]"
  using assms
  by (cases "vault_ReadFromCubbyhole E (''unseal_wrapping_tokens/'' @ hash) w")
     (simp add: appendUnseal_def Let_def split: prod.splits)

lemma bundle_first:
  "Trim (Join (Fields (Sprint [''4b1a-wrap-1''])) '';'') ''[]'' = ''4b1a-wrap-1''"
  by code_simp

lemma bundle_semicolon:
  "Trim (Join (Fields (Sprint [''4b1a;wrap-1''])) '';'') ''[]'' = ''4b1a;wrap-1''"
  by code_simp

lemma bundle_empty: "Trim (Join (Fields (Sprint [''''])) '';'') ''[]'' = ''''"
  by code_simp

lemma plain_wrap_1: "plain ''4b1a-wrap-1''"
  by code_simp

lemma plain_empty: "plain ''''"
  by code_simp

lemma appendUnseal_mem_first:
  assumes "fresh w = token # tokens" and "cubbyhole w ''unseal_wrapping_tokens/f6'' = None"
  shows "appendUnseal mem_env ''f6'' unseal w =
     (([token], None),
      w\<lparr>fresh := tokens,
        cubbyhole := (cubbyhole w)(''unseal_wrapping_tokens/f6'' \<mapsto>
          [''wrapping_tokens'' \<mapsto> VString (Trim (Join (Fields (Sprint [token])) '';'') ''[]'')])\<rparr>)"
  using assms
  by (simp add: appendUnseal_def mem_env_sel mem_ReadFromCubbyhole_def mem_WrapData_def
      mem_WriteToCubbyhole_def read_bundle_def Let_def)

lemma appendUnseal_mem_next:
  assumes "fresh w = token # tokens"
    and "cubbyhole w ''unseal_wrapping_tokens/f6'' = Some [''wrapping_tokens'' \<mapsto> VString raw]"
  shows "fst (appendUnseal mem_env ''f6'' unseal w) =
     (if raw = '''' then ([], Some ''Could not find key 'wrapping_tokens' in cubbyhole'')
      else (Split raw CHR '';'' @ [token], None))"
  using assms
  by (simp add: appendUnseal_def mem_env_sel mem_ReadFromCubbyhole_def mem_WrapData_def
      mem_WriteToCubbyhole_def read_bundle_def string_field_def Let_def)

text \<open>
  The backend hands out the empty string as wrapping token, which contains none of
  the characters in question. The first call returns the bundle of that one token;
  the next call does not recover it: it fails.
\<close>

theorem bundle_empty_token_counterexample:
  "plain '''' \<and>
   fst (appendUnseal mem_env ''f6'' ''share-1'' backend_empty_token) = ([''''], None) \<and>
   fst (appendUnseal mem_env ''f6'' ''share-2''
          (snd (appendUnseal mem_env ''f6'' ''share-1'' backend_empty_token))) =
     ([], Some ''Could not find key 'wrapping_tokens' in cubbyhole'')"
proof -
  have f: "fresh backend_empty_token = '''' # [''4b1a-wrap-2'']"
    "cubbyhole backend_empty_token ''unseal_wrapping_tokens/f6'' = None"
    by (simp_all add: backend_empty_token_def backend0_def)
  note first = appendUnseal_mem_first[OF f, of "''share-1''", unfolded bundle_empty]
  have "fst (appendUnseal mem_env ''f6'' ''share-2''
          (snd (appendUnseal mem_env ''f6'' ''share-1'' backend_empty_token))) =
     ([], Some ''Could not find key 'wrapping_tokens' in cubbyhole'')"
    unfolding first by (subst appendUnseal_mem_next[where raw = "''''"]) simp_all
  with first plain_empty show ?thesis by simp
qed

text \<open>
  C9, as the code has it. The bundle is written as the tokens joined by \<^verbatim>\<open>;\<close> and read
  by splitting at \<^verbatim>\<open>;\<close>, with no escaping. Over a store that returns what was written:
  when a call of \<^verbatim>\<open>appendUnseal\<close> succeeded with the bundle \<open>tokens\<close> (the tokens of
  the bundle it found, then the newly wrapped one) and every token is plain and not
  empty, the next call returns exactly \<open>tokens\<close> followed by its own newly wrapped
  token. For the token \<^verbatim>\<open>4b1a;wrap-1\<close> the next call recovers the two tokens \<^verbatim>\<open>4b1a\<close> and
  \<^verbatim>\<open>wrap-1\<close> in its place.
\<close>

theorem bundle_round_trip:
  assumes "read_after_write E"
    and "appendUnseal E hash unseal w = ((tokens, None), w')"
    and "\<forall>t\<in>set tokens. plain t \<and> t \<noteq> ''''"
    and "vault_WrapData E ''60m'' [''unseal_token'' \<mapsto> VString unseal']
           (snd (vault_ReadFromCubbyhole E (''unseal_wrapping_tokens/'' @ hash) w')) =
         (Inr token', w'')"
  shows "fst (fst (appendUnseal E hash unseal' w')) = tokens @ [token'] \<and>
         fst (appendUnseal mem_env ''f6'' ''share-1'' backend_semicolon_token) =
           ([''4b1a;wrap-1''], None) \<and>
         fst (appendUnseal mem_env ''f6'' ''share-2''
                (snd (appendUnseal mem_env ''f6'' ''share-1'' backend_semicolon_token))) =
           ([''4b1a'', ''wrap-1'', ''4b1a-wrap-2''], None)"
proof -
  from assms(2) obtain w2 where ne: "tokens \<noteq> []" and
    wr: "vault_WriteToCubbyhole E (''unseal_wrapping_tokens/'' @ hash)
           [''wrapping_tokens'' \<mapsto> VString (Trim (Join (Fields (Sprint tokens)) '';'') ''[]'')] w2 =
         (None, w')"
    by (rule appendUnseal_accepted)
  have "fst (vault_ReadFromCubbyhole E (''unseal_wrapping_tokens/'' @ hash) w') =
          Inr (Some (Secret [''wrapping_tokens'' \<mapsto>
                               VString (Trim (Join (Fields (Sprint tokens)) '';'') ''[]'')]))"
    using assms(1) wr unfolding read_after_write_def by blast
  then have general: "fst (fst (appendUnseal E hash unseal' w')) = tokens @ [token']"
    using read_bundle_written[OF ne assms(3)] assms(4) by (rule appendUnseal_next)
  have f: "fresh backend_semicolon_token = ''4b1a;wrap-1'' # [''4b1a-wrap-2'']"
    "cubbyhole backend_semicolon_token ''unseal_wrapping_tokens/f6'' = None"
    by (simp_all add: backend_semicolon_token_def backend0_def)
  note first = appendUnseal_mem_first[OF f, of "''share-1''", unfolded bundle_semicolon]
  have "fst (appendUnseal mem_env ''f6'' ''share-2''
          (snd (appendUnseal mem_env ''f6'' ''share-1'' backend_semicolon_token))) =
     ([''4b1a'', ''wrap-1'', ''4b1a-wrap-2''], None)"
    unfolding first by (subst appendUnseal_mem_next[where raw = "''4b1a;wrap-1''"]) simp_all
  with general first show ?thesis by simp
qed

text \<open>Two shares submitted one after the other to the sample backend.\<close>

theorem bundle_round_trip_witness:
  "fst (appendUnseal mem_env ''f6'' ''share-1'' backend0) = ([''4b1a-wrap-1''], None) \<and>
   fst (fst (appendUnseal mem_env ''f6'' ''share-2''
               (snd (appendUnseal mem_env ''f6'' ''share-1'' backend0)))) =
     [''4b1a-wrap-1'', ''4b1a-wrap-2'']"
proof -
  let ?w' = "backend0\<lparr>fresh := [''4b1a-wrap-2'', ''4b1a-wrap-3''],
              cubbyhole := (cubbyhole backend0)(''unseal_wrapping_tokens/f6'' \<mapsto>
                [''wrapping_tokens'' \<mapsto> VString ''4b1a-wrap-1''])\<rparr>"
  have f: "fresh backend0 = ''4b1a-wrap-1'' # [''4b1a-wrap-2'', ''4b1a-wrap-3'']"
    "cubbyhole backend0 ''unseal_wrapping_tokens/f6'' = None"
    by (simp_all add: backend0_def)
  have first: "appendUnseal mem_env ''f6'' ''share-1'' backend0 = (([''4b1a-wrap-1''], None), ?w')"
    using appendUnseal_mem_first[OF f, of "''share-1''"] by (simp only: bundle_first)
  have p: "\<forall>t\<in>set [''4b1a-wrap-1'']. plain t \<and> t \<noteq> ''''"
    using plain_wrap_1 by simp
  have wrap: "vault_WrapData mem_env ''60m'' [''unseal_token'' \<mapsto> VString ''share-2'']
           (snd (vault_ReadFromCubbyhole mem_env (''unseal_wrapping_tokens/'' @ ''f6'') ?w')) =
         (Inr ''4b1a-wrap-2'', ?w'\<lparr>fresh := [''4b1a-wrap-3'']\<rparr>)"
    by (simp add: mem_env_sel mem_ReadFromCubbyhole_def mem_WrapData_def)
  from bundle_round_trip[OF read_after_write_mem_env first p wrap] first
  show ?thesis by simp
qed

end
